theory Spec2Isabelle
  imports Complex_Main "HOL-Library.Sublist"
begin

section \<open>Python values used by the ticket analyzer\<close>

subsection \<open>Strings\<close>

text \<open>
  A Python \<open>str\<close> is modelled as a \<open>string\<close> whose characters stand for the code points
  0 to 255; the reply texts covered are therefore those of the Latin-1 range. The
  string methods below follow CPython on that range.
\<close>

text \<open>\<open>str.isspace\<close> on one character: the characters \<open>str.strip()\<close> removes.\<close>

definition isspace :: "char \<Rightarrow> bool" where
  "isspace c = (of_char c \<in> {9, 10, 11, 12, 13, 28, 29, 30, 31, 32, 133, 160 :: nat})"

text \<open>The line boundaries of \<open>str.splitlines\<close>; carriage return plus line feed is one boundary.\<close>

definition is_linebreak :: "char \<Rightarrow> bool" where
  "is_linebreak c = (of_char c \<in> {10, 11, 12, 13, 28, 29, 30, 133 :: nat})"

definition strip :: "string \<Rightarrow> string" where
  "strip s = dropWhile isspace (rev (dropWhile isspace (rev s)))"

text \<open>\<open>split_from cur s\<close>: the lines of \<open>s\<close>, where \<open>cur\<close> holds, reversed, the characters of the
  line read so far. No empty last line is produced after a final boundary.\<close>

fun split_from :: "string \<Rightarrow> string \<Rightarrow> string list" where
  "split_from cur [] = (if cur = [] then [] else [rev cur])"
| "split_from cur (c # cs) =
     (if is_linebreak c then
        (case cs of
           d # ds \<Rightarrow> if of_char c = (13::nat) \<and> of_char d = (10::nat)
                     then rev cur # split_from [] ds
                     else rev cur # split_from [] cs
         | [] \<Rightarrow> rev cur # split_from [] cs)
      else split_from (c # cur) cs)"

definition splitlines :: "string \<Rightarrow> string list" where
  "splitlines s = split_from [] s"

definition startswith :: "string \<Rightarrow> string \<Rightarrow> bool" where
  "startswith s p = prefix p s"

text \<open>\<open>s.replace(old, new)\<close>: every occurrence of \<open>old\<close>, found from the left without overlap.\<close>

function replace :: "string \<Rightarrow> string \<Rightarrow> string \<Rightarrow> string" where
  "replace old new s =
     (if old = [] then new @ concat (map (\<lambda>c. c # new) s)
      else if s = [] then []
      else if prefix old s then new @ replace old new (drop (length old) s)
      else hd s # replace old new (tl s))"
  by pat_completeness auto
termination
  by (relation "measure (\<lambda>(old, new, s). length s)") (auto simp: neq_Nil_conv)

declare replace.simps [simp del]

text \<open>\<open>str.lower\<close>: on the code points below 256 the capital letters are A to Z and
  the accented capitals 192 to 222 without the multiplication sign 215.\<close>

definition lower_char :: "char \<Rightarrow> char" where
  "lower_char c =
     (let n = (of_char c :: nat)
      in if (65 \<le> n \<and> n \<le> 90) \<or> (192 \<le> n \<and> n \<le> 214) \<or> (216 \<le> n \<and> n \<le> 222)
         then char_of (n + 32) else c)"

definition lower :: "string \<Rightarrow> string" where
  "lower s = map lower_char s"

text \<open>\<open>s.split(sep, 1)\<close> for a one-character separator.\<close>

definition split_once :: "char \<Rightarrow> string \<Rightarrow> string list" where
  "split_once sep s =
     (case dropWhile (\<lambda>c. c \<noteq> sep) s of
        [] \<Rightarrow> [s]
      | _ # rest \<Rightarrow> [takeWhile (\<lambda>c. c \<noteq> sep) s, rest])"

subsection \<open>Exceptions, floats and JSON values\<close>

text \<open>The exceptions the modelled code can meet, each with its message (\<open>str(e)\<close>).\<close>

datatype exn =
    AttributeError string
  | IndexError string
  | TypeError string
  | ValueError string

fun str_exn :: "exn \<Rightarrow> string" where
  "str_exn (AttributeError m) = m"
| "str_exn (IndexError m) = m"
| "str_exn (TypeError m) = m"
| "str_exn (ValueError m) = m"

text \<open>
  A Python float is a finite value, an infinity or a NaN. Finite values are kept as
  rationals. The comparison \<open>>\<close> is false as soon as one side is a NaN.
\<close>

datatype pyfloat = Finite rat | PosInf | NegInf | NaN

fun float_gt :: "pyfloat \<Rightarrow> pyfloat \<Rightarrow> bool" where
  "float_gt NaN _ = False"
| "float_gt _ NaN = False"
| "float_gt (Finite x) (Finite y) = (y < x)"
| "float_gt (Finite x) PosInf = False"
| "float_gt (Finite x) NegInf = True"
| "float_gt PosInf PosInf = False"
| "float_gt PosInf _ = True"
| "float_gt NegInf _ = False"

text \<open>
  \<open>SIMILARITY_THRESHOLD = 0.7\<close>. The double written \<open>0.7\<close> lies just below seven tenths and
  is the double nearest to it, so a double is greater than that double exactly when it is
  greater than seven tenths: comparing with the rational gives the result of the
  program for every double.
\<close>

definition SIMILARITY_THRESHOLD :: pyfloat where
  "SIMILARITY_THRESHOLD = Finite (7 / 10)"

text \<open>What \<open>response.json()\<close> can return. A \<open>JObj\<close> lists the items of a dict, whose keys
  are distinct.\<close>

datatype json =
    JNull
  | JBool bool
  | JInt int
  | JFloat pyfloat
  | JStr string
  | JArr "json list"
  | JObj "(string \<times> json) list"

text \<open>Truth value of a JSON value in a condition (\<open>if result:\<close>).\<close>

fun truthy :: "json \<Rightarrow> bool" where
  "truthy JNull = False"
| "truthy (JBool b) = b"
| "truthy (JInt i) = (i \<noteq> 0)"
| "truthy (JFloat f) = (f \<noteq> Finite 0)"
| "truthy (JStr s) = (s \<noteq> [])"
| "truthy (JArr xs) = (xs \<noteq> [])"
| "truthy (JObj kvs) = (kvs \<noteq> [])"

fun type_name :: "json \<Rightarrow> string" where
  "type_name JNull = ''NoneType''"
| "type_name (JBool b) = ''bool''"
| "type_name (JInt i) = ''int''"
| "type_name (JFloat f) = ''float''"
| "type_name (JStr s) = ''str''"
| "type_name (JArr xs) = ''list''"
| "type_name (JObj kvs) = ''dict''"

definition quoted :: "string \<Rightarrow> string" where
  "quoted s = CHR 0x27 # s @ [CHR 0x27]"

text \<open>The error of calling a method a value does not have.\<close>

definition no_attribute :: "json \<Rightarrow> string \<Rightarrow> exn" where
  "no_attribute v attr =
     AttributeError (quoted (type_name v) @ '' object has no attribute '' @ quoted attr)"

subsection \<open>The backend and what is observed of a call\<close>

text \<open>
  One HTTP attempt (post, \<open>raise_for_status\<close>, \<open>json\<close>) ends in one of four ways, named
  after the \<open>except\<close> clause that receives it: a decoded JSON value, a timeout, a
  connection error, or any other exception with its message. The backend is a
  function from the number of the attempt to its outcome; the prompt is part of the
  request and does not appear in the model.
\<close>

datatype outcome = Ok json | Timeout | Unreachable | BackendError string

text \<open>What a call does to the outside: a request sent under a timeout, or a pause.\<close>

datatype event = Post nat | Sleep nat

fun is_ok :: "outcome \<Rightarrow> bool" where
  "is_ok (Ok data) = True"
| "is_ok _ = False"

fun is_post :: "event \<Rightarrow> bool" where
  "is_post (Post t) = True"
| "is_post (Sleep t) = False"

section \<open>The class TicketAnalyzer\<close>

definition MAX_TOKENS :: nat where
  "MAX_TOKENS = 100"

definition max_retries :: nat where
  "max_retries = 3"

definition timeout :: nat where
  "timeout = 60"

subsection \<open>\<open>get_solution\<close>\<close>

text \<open>The loop over the lines: the first line that starts with \<open>SOLUTION:\<close> is returned at
  once; with no such line the whole response is returned, stripped.\<close>

fun solution_line :: "string list \<Rightarrow> string \<Rightarrow> string" where
  "solution_line [] response = strip response"
| "solution_line (line # rest) response =
     (if startswith line ''SOLUTION:'' then strip (replace ''SOLUTION:'' [] line)
      else solution_line rest response)"

text \<open>The body of the \<open>try\<close> after \<open>response.json()\<close>.\<close>

definition solution_of_reply :: "json \<Rightarrow> exn + string" where
  "solution_of_reply response_data =
     (case response_data of
        JObj kvs \<Rightarrow>
          (case map_of kvs ''response'' of
             None \<Rightarrow> Inr ''Error: Empty response from API''
           | Some v \<Rightarrow>
               if \<not> truthy v then Inr ''Error: Empty response from API''
               else (case v of
                       JStr s \<Rightarrow> Inr (solution_line (splitlines s) s)
                     | _ \<Rightarrow> Inl (no_attribute v ''splitlines'')))
      | _ \<Rightarrow> Inl (no_attribute response_data ''get''))"

text \<open>One request under a timeout of 60, no loop; every exception becomes a returned
  string.\<close>

definition get_solution :: "(nat \<Rightarrow> outcome) \<Rightarrow> string \<times> event list" where
  "get_solution backend =
     (case backend 0 of
        Ok response_data \<Rightarrow>
          (case solution_of_reply response_data of
             Inr s \<Rightarrow> s
           | Inl e \<Rightarrow> ''Error getting solution: '' @ str_exn e)
      | Timeout \<Rightarrow>
          ''Error: Request timed out. Please check if Ollama server is running.''
      | Unreachable \<Rightarrow>
          ''Error: Could not connect to Ollama server. Please verify the server is running and accessible.''
      | BackendError msg \<Rightarrow> ''Error getting solution: '' @ msg,
      [Post 60])"

subsection \<open>\<open>fetch_similarity\<close>\<close>

text \<open>
  The loop \<open>for attempt in range(max_retries)\<close>. Both \<open>except\<close> clauses do the same: pause
  for 1 and go on while an attempt is left, return the triple with \<open>None\<close> otherwise. A
  loop that ends without \<open>return\<close> gives Python's bare \<open>None\<close>, here the outer \<open>None\<close>.
\<close>

fun fetch_attempts ::
  "(nat \<Rightarrow> outcome) \<Rightarrow> string \<Rightarrow> string \<Rightarrow> nat list \<Rightarrow>
     (string \<times> string \<times> json option) option \<times> event list" where
  "fetch_attempts backend ticket_id existing_description [] = (None, [])"
| "fetch_attempts backend ticket_id existing_description (attempt # rest) =
     (case backend attempt of
        Ok data \<Rightarrow> (Some (ticket_id, existing_description, Some data), [Post timeout])
      | Timeout \<Rightarrow>
          if attempt < max_retries - 1
          then (case fetch_attempts backend ticket_id existing_description rest of
                  (r, tr) \<Rightarrow> (r, Post timeout # Sleep 1 # tr))
          else (Some (ticket_id, existing_description, None), [Post timeout])
      | Unreachable \<Rightarrow>
          if attempt < max_retries - 1
          then (case fetch_attempts backend ticket_id existing_description rest of
                  (r, tr) \<Rightarrow> (r, Post timeout # Sleep 1 # tr))
          else (Some (ticket_id, existing_description, None), [Post timeout])
      | BackendError msg \<Rightarrow>
          if attempt < max_retries - 1
          then (case fetch_attempts backend ticket_id existing_description rest of
                  (r, tr) \<Rightarrow> (r, Post timeout # Sleep 1 # tr))
          else (Some (ticket_id, existing_description, None), [Post timeout]))"

definition fetch_similarity ::
  "(nat \<Rightarrow> outcome) \<Rightarrow> string \<Rightarrow> string \<Rightarrow>
     (string \<times> string \<times> json option) option \<times> event list" where
  "fetch_similarity backend ticket_id existing_description =
     fetch_attempts backend ticket_id existing_description [0..<max_retries]"

subsection \<open>\<open>find_similar_tickets\<close>\<close>

text \<open>An entry of the returned list: the dict with the keys \<open>id\<close>, \<open>description\<close>,
  \<open>solution\<close> and \<open>similarity\<close>.\<close>

record similar_ticket =
  match_id :: string
  match_description :: string
  match_solution :: "string option"
  match_similarity :: pyfloat

text \<open>\<open>result.get("response", "").strip()\<close>.\<close>

definition response_text :: "json \<Rightarrow> exn + string" where
  "response_text result =
     (case result of
        JObj kvs \<Rightarrow>
          (case map_of kvs ''response'' of
             None \<Rightarrow> Inr (strip [])
           | Some (JStr s) \<Rightarrow> Inr (strip s)
           | Some v \<Rightarrow> Inl (no_attribute v ''strip''))
      | _ \<Rightarrow> Inl (no_attribute result ''get''))"

text \<open>
  The loop over the lines of the response text. It has no \<open>break\<close>: every line is
  looked at and a later labelled line overwrites what an earlier one set. The builtin
  \<open>float\<close> is a parameter (\<open>Inl\<close> when it raises); its exception is caught and leaves
  the score \<open>None\<close>.
\<close>

fun parse_lines ::
  "(string \<Rightarrow> exn + pyfloat) \<Rightarrow> string list \<Rightarrow> pyfloat option \<Rightarrow> string option \<Rightarrow>
     pyfloat option \<times> string option" where
  "parse_lines float [] similarity_score solution = (similarity_score, solution)"
| "parse_lines float (line # rest) similarity_score solution =
     parse_lines float rest
       (if startswith line ''SIMILARITY:''
        then (case float (strip (replace ''SIMILARITY:'' [] line)) of
                Inr x \<Rightarrow> Some x
              | Inl e \<Rightarrow> None)
        else similarity_score)
       (if startswith line ''SOLUTION:''
        then Some (strip (replace ''SOLUTION:'' [] line))
        else solution)"

definition parse_response ::
  "(string \<Rightarrow> exn + pyfloat) \<Rightarrow> string \<Rightarrow> pyfloat option \<times> string option" where
  "parse_response float text = parse_lines float (splitlines text) None None"

text \<open>The body of the loop over the gathered results, for one result; \<open>similar_tickets\<close> is
  the list built so far. Unpacking a bare \<open>None\<close> raises.\<close>

definition process_result ::
  "(string \<Rightarrow> exn + pyfloat) \<Rightarrow> (string \<times> string \<times> json option) option \<Rightarrow>
     similar_ticket list \<Rightarrow> exn + similar_ticket list" where
  "process_result float r similar_tickets =
     (case r of
        None \<Rightarrow> Inl (TypeError ''cannot unpack non-iterable NoneType object'')
      | Some (tid, existing_description, result) \<Rightarrow>
          (case result of
             None \<Rightarrow> Inr similar_tickets
           | Some data \<Rightarrow>
               if truthy data then
                 (case response_text data of
                    Inl e \<Rightarrow> Inl e
                  | Inr text \<Rightarrow>
                      (case parse_response float text of
                         (None, sol) \<Rightarrow> Inr similar_tickets
                       | (Some score, sol) \<Rightarrow>
                           if float_gt score SIMILARITY_THRESHOLD
                           then Inr (similar_tickets @
                                  [\<lparr>match_id = tid, match_description = existing_description,
                                    match_solution = sol, match_similarity = score\<rparr>])
                           else Inr similar_tickets))
               else Inr similar_tickets))"

fun process_results ::
  "(string \<Rightarrow> exn + pyfloat) \<Rightarrow> (string \<times> string \<times> json option) option list \<Rightarrow>
     similar_ticket list \<Rightarrow> exn + similar_ticket list" where
  "process_results float [] similar_tickets = Inr similar_tickets"
| "process_results float (r # rs) similar_tickets =
     (case process_result float r similar_tickets of
        Inl e \<Rightarrow> Inl e
      | Inr similar_tickets' \<Rightarrow> process_results float rs similar_tickets')"

text \<open>
  \<open>tickets\<close> is the snapshot \<open>SELECT id, description FROM tickets\<close>. One task per ticket;
  \<open>backend k\<close> answers the attempts of the task of the ticket at position \<open>k\<close>.
  \<open>asyncio.gather\<close> returns the results in the order of the tasks. The second component
  lists the events of all tasks, task after task.
\<close>

definition find_similar_tickets ::
  "(string \<Rightarrow> exn + pyfloat) \<Rightarrow> (nat \<Rightarrow> nat \<Rightarrow> outcome) \<Rightarrow> (string \<times> string) list \<Rightarrow>
     (exn + similar_ticket list) \<times> event list" where
  "find_similar_tickets float backend tickets =
     (if tickets = [] then (Inr [], [])
      else
        (let tasks = map (\<lambda>(k, tid, desc). fetch_similarity (backend k) tid desc)
                       (zip [0..<length tickets] tickets)
         in (process_results float (map fst tasks) [], concat (map snd tasks))))"

subsection \<open>\<open>add_ticket\<close>\<close>

record ticket_row =
  row_id :: string
  row_description :: string
  row_model :: string
  row_categories :: string
  row_solution :: string
  row_timestamp :: string
  row_similarity_group :: int

text \<open>\<open>similar_tickets[0]['solution'] or "No solution found"\<close>.\<close>

fun or_default :: "string option \<Rightarrow> string \<Rightarrow> string" where
  "or_default None d = d"
| "or_default (Some s) d = (if s = [] then d else s)"

text \<open>
  The table is the list of its rows in the order \<open>SELECT\<close> lists them. The result is
  the returned flag, the table afterwards and the events. An exception of the
  similarity search is caught by \<open>except Exception\<close> and gives \<open>False\<close>.
\<close>

definition add_ticket ::
  "(string \<Rightarrow> exn + pyfloat) \<Rightarrow> (nat \<Rightarrow> nat \<Rightarrow> outcome) \<Rightarrow> (nat \<Rightarrow> outcome) \<Rightarrow>
     string \<Rightarrow> string \<Rightarrow> ticket_row list \<Rightarrow> string \<Rightarrow> string \<Rightarrow> string \<Rightarrow>
     bool \<times> ticket_row list \<times> event list" where
  "add_ticket float compare_backend solution_backend model now store tid desc category =
     (case find (\<lambda>row. row_id row = tid) store of
        Some row \<Rightarrow> (False, store, [])
      | None \<Rightarrow>
          (case find_similar_tickets float compare_backend
                  (map (\<lambda>row. (row_id row, row_description row)) store) of
             (Inl e, tr) \<Rightarrow> (False, store, tr)
           | (Inr similar_tickets, tr) \<Rightarrow>
               (case (if similar_tickets \<noteq> []
                      then (or_default (match_solution (hd similar_tickets)) ''No solution found'', [])
                      else get_solution solution_backend) of
                  (sol, tr') \<Rightarrow>
                    (True,
                     store @ [\<lparr>row_id = tid, row_description = desc, row_model = model,
                               row_categories = category, row_solution = sol,
                               row_timestamp = now, row_similarity_group = 1\<rparr>],
                     tr @ tr'))))"

subsection \<open>\<open>get_category\<close>\<close>

text \<open>The list \<open>categories\<close>: the entries of \<open>categories_list\<close>, split at the commas and
  stripped.\<close>

definition categories :: "string list" where
  "categories =
   [''Hardware'', ''Software'', ''Network'', ''Email'', ''Login/Access'', ''Peripheral'',
    ''Performance'', ''Security'', ''Printer'', ''Database'', ''Server'',
    ''Cloud Services'', ''Backup/Recovery'', ''Application Support'', ''UI/UX Bug'',
    ''Mobile Device'', ''Internet Connectivity'', ''Power Supply'', ''Operating System'',
    ''File System'', ''Permissions'', ''Malware/Virus'', ''Phishing'',
    ''Patch Management'', ''VPN'', ''DNS'', ''Firewall'', ''Proxy'', ''Storage'',
    ''Device Configuration'', ''Account Management'', ''Password Reset'',
    ''Multi-Factor Authentication'', ''Licensing'', ''Deployment'', ''Installation'',
    ''Update Issues'', ''System Crash'', ''Blue Screen'', ''Boot Failure'', ''Slow Boot'',
    ''Application Crash'', ''Data Loss'', ''Sync Issues'', ''Drive Mapping'',
    ''Network Drive'', ''Printer Driver'', ''Monitor Display'', ''Keyboard/Mouse Issue'',
    ''Touchscreen Problem'', ''Battery Issue'', ''BIOS/UEFI'', ''Disk Errors'',
    ''Network Cable Issue'', ''Wi-Fi Signal Issue'', ''Port Blocked'', ''Email Spam'',
    ''Email Configuration'', ''Mailbox Full'', ''Shared Folder Issue'', ''Remote Desktop'',
    ''Software Compatibility'', ''Software Activation'', ''Virtual Machine Issue'',
    ''Cloud Sync'', ''SaaS Access'', ''Hosting Issue'', ''SSL Certificate'',
    ''Configuration Error'', ''Scheduler Issue'', ''Cron Job'', ''API Error'',
    ''Integration Issue'', ''Data Migration'', ''Report Generation'', ''Analytics Error'',
    ''Dashboard Issue'', ''Backup Disk Full'', ''Restore Failure'', ''Access Denied'',
    ''User Provisioning'', ''System Freeze'', ''Thermal Overheating'',
    ''Resource Exhaustion'', ''Kernel Panic'', ''Registry Error'', ''Log File Issue'',
    ''Proxy Authentication'', ''Wireless Adapter'', ''IP Conflict'',
    ''Bandwidth Throttling'', ''QoS Issue'', ''Cloud Storage Quota'',
    ''Cloud Login Issue'', ''Mobile App Crash'', ''Mobile Sync Issue'', ''UX Feedback'',
    ''Documentation Error'', ''Unsupported Feature'', ''Version Mismatch'',
    ''Plugin Error'', ''Browser Compatibility'', ''Cross-Site Error'',
    ''Database Timeout'', ''Connection Pool Error'', ''Latency Issue'', ''Packet Loss'',
    ''Audit Log'', ''Encryption Problem'', ''Certificate Expired'', ''Compliance Violation'']"

text \<open>The inner loop \<open>for valid in categories\<close> with its \<open>else\<close> branch.\<close>

fun match_valid :: "string \<Rightarrow> string list \<Rightarrow> string" where
  "match_valid category_candidate [] = ''Uncategorized''"
| "match_valid category_candidate (valid # rest) =
     (if lower category_candidate = lower valid then valid
      else match_valid category_candidate rest)"

text \<open>The test that selects the category line.\<close>

definition is_category_line :: "string \<Rightarrow> bool" where
  "is_category_line line = startswith (lower (strip line)) ''category:''"

text \<open>\<open>line.split(":", 1)[1].strip()\<close>; the index raises on a list of one element.\<close>

definition category_candidate :: "string \<Rightarrow> exn + string" where
  "category_candidate line =
     (case split_once CHR '':'' line of
        [a, b] \<Rightarrow> Inr (strip b)
      | _ \<Rightarrow> Inl (IndexError ''list index out of range''))"

text \<open>The outer loop over the lines: the first category line decides, then \<open>break\<close>.\<close>

fun category_of_lines :: "string list \<Rightarrow> exn + string" where
  "category_of_lines [] = Inr ''Uncategorized''"
| "category_of_lines (line # rest) =
     (if is_category_line line then
        (case category_candidate line of
           Inl e \<Rightarrow> Inl e
         | Inr cand \<Rightarrow> Inr (match_valid cand categories))
      else category_of_lines rest)"

text \<open>The body of the \<open>try\<close> after \<open>response.json()\<close>.\<close>

definition category_of_reply :: "json \<Rightarrow> exn + string" where
  "category_of_reply response_data =
     (case response_data of
        JObj kvs \<Rightarrow>
          (case map_of kvs ''response'' of
             None \<Rightarrow> Inr ''Uncategorized''
           | Some v \<Rightarrow>
               if \<not> truthy v then Inr ''Uncategorized''
               else (case v of
                       JStr s \<Rightarrow> category_of_lines (splitlines s)
                     | _ \<Rightarrow> Inl (no_attribute v ''splitlines'')))
      | _ \<Rightarrow> Inl (no_attribute response_data ''get''))"

text \<open>
  The loop \<open>for attempt in range(max_retries)\<close>. Only a timeout goes on to the next
  attempt, after \<open>time.sleep(5)\<close>; a connection error and any other exception return at
  once. The result \<open>None\<close> is Python's \<open>None\<close> of a loop that ends without \<open>return\<close>.
\<close>

fun category_attempts :: "(nat \<Rightarrow> outcome) \<Rightarrow> nat list \<Rightarrow> string option \<times> event list" where
  "category_attempts backend [] = (None, [])"
| "category_attempts backend (attempt # rest) =
     (case backend attempt of
        Ok response_data \<Rightarrow>
          (case category_of_reply response_data of
             Inr category \<Rightarrow> (Some category, [Post timeout])
           | Inl e \<Rightarrow> (Some ''Uncategorized'', [Post timeout]))
      | Timeout \<Rightarrow>
          if attempt < max_retries - 1
          then (case category_attempts backend rest of
                  (r, tr) \<Rightarrow> (r, Post timeout # Sleep 5 # tr))
          else (Some ''Uncategorized'', [Post timeout])
      | Unreachable \<Rightarrow> (Some ''Uncategorized'', [Post timeout])
      | BackendError msg \<Rightarrow> (Some ''Uncategorized'', [Post timeout]))"

definition get_category :: "(nat \<Rightarrow> outcome) \<Rightarrow> string option \<times> event list" where
  "get_category backend = category_attempts backend [0..<max_retries]"

section \<open>Traces, scripted backends and the policies as the specification words them\<close>

text \<open>The events of \<open>n\<close> attempts, each a request under the timeout \<open>t\<close>, with a pause of
  \<open>pause\<close> between one attempt and the next.\<close>

definition retry_trace :: "nat \<Rightarrow> nat \<Rightarrow> nat \<Rightarrow> event list" where
  "retry_trace t pause n = Post t # concat (replicate (n - 1) [Sleep pause, Post t])"

text \<open>What \<open>get_category\<close> returns from an attempt that is not followed by another one: the
  category found in the reply, or \<open>Uncategorized\<close> for an exception of any kind.\<close>

definition category_of_outcome :: "outcome \<Rightarrow> string" where
  "category_of_outcome out =
     (case out of
        Ok response_data \<Rightarrow>
          (case category_of_reply response_data of
             Inr category \<Rightarrow> category
           | Inl e \<Rightarrow> ''Uncategorized'')
      | _ \<Rightarrow> ''Uncategorized'')"

text \<open>A reply whose \<open>response\<close> field is the given text.\<close>

definition reply :: "string \<Rightarrow> json" where
  "reply s = JObj [(''response'', JStr s)]"

text \<open>A backend that plays the listed outcomes, one per attempt, and \<open>final\<close> from then on.\<close>

definition script :: "outcome list \<Rightarrow> outcome \<Rightarrow> nat \<Rightarrow> outcome" where
  "script os final attempt = (if attempt < length os then os ! attempt else final)"

text \<open>The backends of a fan-out, one script per ticket position; positions beyond the
  list are unreachable.\<close>

definition per_ticket :: "(nat \<Rightarrow> outcome) list \<Rightarrow> nat \<Rightarrow> nat \<Rightarrow> outcome" where
  "per_ticket bs k attempt = (if k < length bs then (bs ! k) attempt else Unreachable)"

text \<open>
  A reader of plain decimal literals (digits, at most one point, at least one digit),
  used for the parameter \<open>float\<close> in the examples. On these literals the builtin gives
  the nearest double; anything else is rejected here with \<open>ValueError\<close>.
\<close>

definition digit_of :: "char \<Rightarrow> nat option" where
  "digit_of c =
     (let n = (of_char c :: nat) in if 48 \<le> n \<and> n \<le> 57 then Some (n - 48) else None)"

fun digits_value :: "string \<Rightarrow> nat \<Rightarrow> nat option" where
  "digits_value [] acc = Some acc"
| "digits_value (c # cs) acc =
     (case digit_of c of
        None \<Rightarrow> None
      | Some d \<Rightarrow> digits_value cs (10 * acc + d))"

definition decimal_float :: "string \<Rightarrow> exn + pyfloat" where
  "decimal_float s =
     (let ip = takeWhile (\<lambda>c. c \<noteq> CHR ''.'') s;
          fp = drop (Suc (length ip)) s
      in if ip = [] \<and> fp = []
         then Inl (ValueError (''could not convert string to float: '' @ quoted s))
         else (case (digits_value ip 0, digits_value fp 0) of
                 (Some a, Some b) \<Rightarrow>
                   Inr (Finite (of_nat a + of_nat b / of_nat (10 ^ length fp)))
               | _ \<Rightarrow> Inl (ValueError (''could not convert string to float: '' @ quoted s))))"

text \<open>
  The retry policy of the single-shot lookups in the words of the specification: up
  to three attempts, each under a timeout of 60; after a timeout or a backend error a
  pause of 1 and the next attempt; an unreachable backend ends the lookup at once.
\<close>

fun spec_single_shot :: "(nat \<Rightarrow> outcome) \<Rightarrow> nat list \<Rightarrow> event list" where
  "spec_single_shot backend [] = []"
| "spec_single_shot backend (attempt # rest) =
     (case backend attempt of
        Ok data \<Rightarrow> [Post 60]
      | Unreachable \<Rightarrow> [Post 60]
      | Timeout \<Rightarrow>
          if rest = [] then [Post 60] else Post 60 # Sleep 1 # spec_single_shot backend rest
      | BackendError msg \<Rightarrow>
          if rest = [] then [Post 60] else Post 60 # Sleep 1 # spec_single_shot backend rest)"

definition spec_retry_trace :: "(nat \<Rightarrow> outcome) \<Rightarrow> event list" where
  "spec_retry_trace backend = spec_single_shot backend [0, 1, 2]"

text \<open>
  The response parser in the words of the specification: the score from the first
  line beginning with \<open>SIMILARITY:\<close>, absent when it does not parse; the solution from
  the first line beginning with \<open>SOLUTION:\<close>.
\<close>

definition spec_parse ::
  "(string \<Rightarrow> exn + pyfloat) \<Rightarrow> string \<Rightarrow> pyfloat option \<times> string option" where
  "spec_parse float text =
     ((case find (\<lambda>line. startswith line ''SIMILARITY:'') (splitlines text) of
         None \<Rightarrow> None
       | Some line \<Rightarrow>
           (case float (strip (replace ''SIMILARITY:'' [] line)) of
              Inr x \<Rightarrow> Some x
            | Inl e \<Rightarrow> None)),
      (case find (\<lambda>line. startswith line ''SOLUTION:'') (splitlines text) of
         None \<Rightarrow> None
       | Some line \<Rightarrow> Some (strip (replace ''SOLUTION:'' [] line))))"

section \<open>Properties\<close>

subsection \<open>Auxiliary facts\<close>

lemma upt_max_retries: "[0..<max_retries] = [0, 1, 2]"
  by (simp add: max_retries_def upt_rec)

lemma retry_trace_1: "retry_trace t p 1 = [Post t]"
  by (simp add: retry_trace_def)

lemma retry_trace_2: "retry_trace t p 2 = [Post t, Sleep p, Post t]"
  by (simp add: retry_trace_def numeral_2_eq_2)

lemma retry_trace_3: "retry_trace t p 3 = [Post t, Sleep p, Post t, Sleep p, Post t]"
  by (simp add: retry_trace_def numeral_3_eq_3)

lemma fetch_attempts_ok:
  "backend a = Ok data \<Longrightarrow>
   fetch_attempts backend tid desc (a # rest) = (Some (tid, desc, Some data), [Post 60])"
  by (simp add: timeout_def)

lemma fetch_attempts_fail:
  "\<not> is_ok (backend a) \<Longrightarrow>
   fetch_attempts backend tid desc (a # rest) =
     (if a < 2
      then (case fetch_attempts backend tid desc rest of (r, tr) \<Rightarrow> (r, Post 60 # Sleep 1 # tr))
      else (Some (tid, desc, None), [Post 60]))"
  by (cases "backend a") (simp_all add: timeout_def max_retries_def)

lemma is_ok_conv: "is_ok x = (\<exists>d. x = Ok d)"
  by (cases x) simp_all

lemma is_ok_obtain: "is_ok x \<Longrightarrow> \<exists>d. x = Ok d"
  by (cases x) simp_all

lemma three_attempts_cases:
  assumes first: "\<And>d. backend 0 = Ok d \<Longrightarrow> P"
    and second: "\<And>d. \<not> is_ok (backend 0) \<Longrightarrow> backend 1 = Ok d \<Longrightarrow> P"
    and third: "\<And>d. \<not> is_ok (backend 0) \<Longrightarrow> \<not> is_ok (backend 1) \<Longrightarrow> backend 2 = Ok d \<Longrightarrow> P"
    and none: "\<not> is_ok (backend 0) \<Longrightarrow> \<not> is_ok (backend 1) \<Longrightarrow> \<not> is_ok (backend 2) \<Longrightarrow> P"
  shows P
proof (cases "is_ok (backend 0)")
  case True
  then obtain d where "backend 0 = Ok d" using is_ok_obtain by blast
  then show P by (rule first)
next
  case b0: False
  show P
  proof (cases "is_ok (backend 1)")
    case True
    then obtain d where "backend 1 = Ok d" using is_ok_obtain by blast
    with b0 show P by (rule second)
  next
    case b1: False
    show P
    proof (cases "is_ok (backend 2)")
      case True
      then obtain d where "backend 2 = Ok d" using is_ok_obtain by blast
      with b0 b1 show P by (rule third)
    next
      case False
      with b0 b1 show P by (rule none)
    qed
  qed
qed

lemma fetch_first: "backend 0 = Ok d \<Longrightarrow> fetch_similarity backend tid desc = (Some (tid, desc, Some d), retry_trace 60 1 1)"
  by (simp only: fetch_similarity_def upt_max_retries fetch_attempts_ok retry_trace_1)

lemma fetch_second: "\<not> is_ok (backend 0) \<Longrightarrow> backend 1 = Ok d \<Longrightarrow> fetch_similarity backend tid desc = (Some (tid, desc, Some d), retry_trace 60 1 2)"
  by (simp add: fetch_similarity_def upt_max_retries fetch_attempts_ok fetch_attempts_fail
            retry_trace_2 del: fetch_attempts.simps)

lemma fetch_third: "\<not> is_ok (backend 0) \<Longrightarrow> \<not> is_ok (backend 1) \<Longrightarrow> backend 2 = Ok d \<Longrightarrow> fetch_similarity backend tid desc = (Some (tid, desc, Some d), retry_trace 60 1 3)"
  by (simp add: fetch_similarity_def upt_max_retries fetch_attempts_ok fetch_attempts_fail
            retry_trace_3 del: fetch_attempts.simps)

lemma fetch_exhausted: "\<not> is_ok (backend 0) \<Longrightarrow> \<not> is_ok (backend 1) \<Longrightarrow> \<not> is_ok (backend 2) \<Longrightarrow> fetch_similarity backend tid desc = (Some (tid, desc, None), retry_trace 60 1 3)"
  by (simp add: fetch_similarity_def upt_max_retries fetch_attempts_fail
            retry_trace_3 del: fetch_attempts.simps)


lemma below_two: "a < 3 - (1::nat) \<Longrightarrow> a = 0 \<or> a = 1"
  by arith

subsection \<open>The comparison path: retries of \<open>fetch_similarity\<close>\<close>

text \<open>
  Claim C3. A comparison call makes between one and three attempts, each a request
  under a timeout of 60, with a pause of 1 between one attempt and the next. Every
  attempt before the last one failed, whatever the kind of failure (a connection
  error is followed by a new attempt exactly as a timeout is). The call returns the
  reply of its last attempt when that attempt succeeded; it returns no reply only
  after three failed attempts, and then the loop over the results leaves the list of
  similar tickets as it was and raises nothing.
\<close>

theorem fetch_similarity_retry:
  "\<exists>n r. fetch_similarity backend tid desc = (Some (tid, desc, r), retry_trace 60 1 n)
     \<and> 1 \<le> n \<and> n \<le> 3
     \<and> (\<forall>a<n - 1. \<not> is_ok (backend a))
     \<and> (case r of
          Some data \<Rightarrow> backend (n - 1) = Ok data
        | None \<Rightarrow> n = 3 \<and> \<not> is_ok (backend 2)
                  \<and> process_result float (Some (tid, desc, None)) acc = Inr acc)"
proof (rule three_attempts_cases [of backend])
  fix d
  assume ok: "backend 0 = Ok d"
  have "fetch_similarity backend tid desc = (Some (tid, desc, Some d), retry_trace 60 1 1)
     \<and> 1 \<le> (1::nat) \<and> (1::nat) \<le> 3
     \<and> (\<forall>a<(1::nat) - 1. \<not> is_ok (backend a))
     \<and> (case Some d of
          Some data \<Rightarrow> backend ((1::nat) - 1) = Ok data
        | None \<Rightarrow> (1::nat) = 3 \<and> \<not> is_ok (backend 2)
                  \<and> process_result float (Some (tid, desc, None)) acc = Inr acc)"
    using fetch_first [where backend = backend and d = d] ok by simp
  then show ?thesis
    by (rule_tac x = 1 in exI, rule_tac x = "Some d" in exI)
next
  fix d
  assume bad: "\<not> is_ok (backend 0)" and ok: "backend 1 = Ok d"
  have "fetch_similarity backend tid desc = (Some (tid, desc, Some d), retry_trace 60 1 2)
     \<and> 1 \<le> (2::nat) \<and> (2::nat) \<le> 3
     \<and> (\<forall>a<(2::nat) - 1. \<not> is_ok (backend a))
     \<and> (case Some d of
          Some data \<Rightarrow> backend ((2::nat) - 1) = Ok data
        | None \<Rightarrow> (2::nat) = 3 \<and> \<not> is_ok (backend 2)
                  \<and> process_result float (Some (tid, desc, None)) acc = Inr acc)"
    using fetch_second [where backend = backend and d = d] bad ok by simp
  then show ?thesis
    by (rule_tac x = 2 in exI, rule_tac x = "Some d" in exI)
next
  fix d
  assume bad: "\<not> is_ok (backend 0)" "\<not> is_ok (backend 1)" and ok: "backend 2 = Ok d"
  have early: "\<forall>a<(3::nat) - 1. \<not> is_ok (backend a)"
    using bad below_two by blast
  have "fetch_similarity backend tid desc = (Some (tid, desc, Some d), retry_trace 60 1 3)
     \<and> 1 \<le> (3::nat) \<and> (3::nat) \<le> 3
     \<and> (\<forall>a<(3::nat) - 1. \<not> is_ok (backend a))
     \<and> (case Some d of
          Some data \<Rightarrow> backend ((3::nat) - 1) = Ok data
        | None \<Rightarrow> (3::nat) = 3 \<and> \<not> is_ok (backend 2)
                  \<and> process_result float (Some (tid, desc, None)) acc = Inr acc)"
    using fetch_third [where backend = backend and d = d] bad early ok by simp
  then show ?thesis
    by (rule_tac x = 3 in exI, rule_tac x = "Some d" in exI)
next
  assume bad: "\<not> is_ok (backend 0)" "\<not> is_ok (backend 1)" "\<not> is_ok (backend 2)"
  have early: "\<forall>a<(3::nat) - 1. \<not> is_ok (backend a)"
    using bad below_two by blast
  have "fetch_similarity backend tid desc = (Some (tid, desc, None), retry_trace 60 1 3)
     \<and> 1 \<le> (3::nat) \<and> (3::nat) \<le> 3
     \<and> (\<forall>a<(3::nat) - 1. \<not> is_ok (backend a))
     \<and> (case None :: json option of
          Some data \<Rightarrow> backend ((3::nat) - 1) = Ok data
        | None \<Rightarrow> (3::nat) = 3 \<and> \<not> is_ok (backend 2)
                  \<and> process_result float (Some (tid, desc, None)) acc = Inr acc)"
    using fetch_exhausted [where backend = backend] early bad by (simp add: process_result_def)
  then show ?thesis
    by (rule_tac x = 3 in exI, rule_tac x = None in exI)
qed

theorem fetch_similarity_retry_witness:
  "fetch_similarity (script [] Unreachable) ''T1'' ''printer jam''
     = (Some (''T1'', ''printer jam'', None), retry_trace 60 1 3)
   \<and> process_result decimal_float (Some (''T1'', ''printer jam'', None)) [] = Inr []"
  using fetch_similarity_retry
    [of "script [] Unreachable" "''T1''" "''printer jam''" decimal_float "[]"]
  by (elim exE conjE) (auto simp: script_def split: option.splits)

subsection \<open>The empty snapshot\<close>

text \<open>
  Claim C4. With an empty snapshot of the ticket store, \<open>find_similar_tickets\<close> returns
  the empty list and no event takes place: no request is sent to the backend.
\<close>

theorem find_similar_tickets_empty:
  "find_similar_tickets float backend [] = (Inr [], [])"
  by (simp add: find_similar_tickets_def)

theorem find_similar_tickets_empty_witness:
  "find_similar_tickets decimal_float (per_ticket []) [] = (Inr [], [])"
  by (rule find_similar_tickets_empty)

subsection \<open>Adding a ticket whose identifier exists\<close>

text \<open>
  Claim C9. When the identifier of the new ticket is the identifier of a row of the
  table, \<open>add_ticket\<close> returns \<open>False\<close> and the table is the same afterwards; no request
  is sent either.
\<close>

theorem add_ticket_duplicate:
  assumes "tid \<in> set (map row_id store)"
  shows "add_ticket float compare_backend solution_backend model now store tid desc category
           = (False, store, [])"
proof -
  from assms obtain row where "find (\<lambda>row. row_id row = tid) store = Some row"
    by (cases "find (\<lambda>row. row_id row = tid) store") (auto simp: find_None_iff)
  then show ?thesis
    by (simp add: add_ticket_def)
qed

theorem add_ticket_duplicate_witness:
  "add_ticket decimal_float (per_ticket []) (script [] Unreachable) ''mistral:latest''
     ''2026-01-01 00:00:00''
     [\<lparr>row_id = ''T1'', row_description = ''printer jam'', row_model = ''mistral:latest'',
       row_categories = ''Printer'', row_solution = ''Clear tray'',
       row_timestamp = ''2025-12-31 09:00:00'', row_similarity_group = 1\<rparr>]
     ''T1'' ''printer jam again'' ''Printer''
   = (False,
      [\<lparr>row_id = ''T1'', row_description = ''printer jam'', row_model = ''mistral:latest'',
        row_categories = ''Printer'', row_solution = ''Clear tray'',
        row_timestamp = ''2025-12-31 09:00:00'', row_similarity_group = 1\<rparr>],
      [])"
  by (rule add_ticket_duplicate) simp

subsection \<open>\<open>get_solution\<close>: a reply without a solution line\<close>

lemma solution_line_none:
  "\<forall>line\<in>set ls. \<not> startswith line ''SOLUTION:'' \<Longrightarrow> solution_line ls response = strip response"
  by (induction ls) simp_all

text \<open>
  Claim C10. When the backend answers the solo-solution lookup with a JSON object
  whose \<open>response\<close> is a non-empty text none of whose lines starts with \<open>SOLUTION:\<close>,
  \<open>get_solution\<close> returns that whole text, stripped.
\<close>

theorem get_solution_whole_reply:
  assumes "backend 0 = Ok (JObj kvs)"
    and "map_of kvs ''response'' = Some (JStr text)"
    and "text \<noteq> []"
    and "\<forall>line\<in>set (splitlines text). \<not> startswith line ''SOLUTION:''"
  shows "fst (get_solution backend) = strip text"
  using assms by (simp add: get_solution_def solution_of_reply_def solution_line_none)

theorem get_solution_whole_reply_witness:
  "fst (get_solution (script [] (Ok (reply ''REPEAT: no\<newline>Just reboot it  ''))))
     = ''REPEAT: no\<newline>Just reboot it''"
proof -
  have 1: "script [] (Ok (reply ''REPEAT: no\<newline>Just reboot it  '')) 0
             = Ok (JObj [(''response'', JStr ''REPEAT: no\<newline>Just reboot it  '')])"
    by (simp add: script_def reply_def)
  have 2: "map_of [(''response'', JStr ''REPEAT: no\<newline>Just reboot it  '')] ''response''
             = Some (JStr ''REPEAT: no\<newline>Just reboot it  '')"
    by simp
  have 3: "''REPEAT: no\<newline>Just reboot it  '' \<noteq> []"
    by simp
  have 4: "\<forall>line\<in>set (splitlines ''REPEAT: no\<newline>Just reboot it  '').
             \<not> startswith line ''SOLUTION:''"
    by code_simp
  have 5: "strip ''REPEAT: no\<newline>Just reboot it  '' = ''REPEAT: no\<newline>Just reboot it''"
    by code_simp
  have "fst (get_solution (script [] (Ok (reply ''REPEAT: no\<newline>Just reboot it  ''))))
          = strip ''REPEAT: no\<newline>Just reboot it  ''"
    using 1 2 3 4 by (rule get_solution_whole_reply)
  then show ?thesis using 5 by (rule trans)
qed

subsection \<open>\<open>get_solution\<close>: one attempt, no retry\<close>

text \<open>
  Claim C7, as amended. \<open>get_solution\<close> sends exactly one request, under a timeout of
  60, and never makes a second attempt. When that attempt fails (timeout, connection
  error or any other exception) the function returns, as its ordinary result, a
  message that starts with \<open>Error\<close>; no exception leaves it.
\<close>

theorem get_solution_single_attempt:
  "snd (get_solution backend) = [Post 60]
   \<and> (\<not> is_ok (backend 0) \<longrightarrow> startswith (fst (get_solution backend)) ''Error'')"
  by (cases "backend 0") (simp_all add: get_solution_def startswith_def)

theorem get_solution_single_attempt_witness:
  "snd (get_solution (script [Timeout] (Ok (reply ''SOLUTION: Reboot'')))) = [Post 60]
   \<and> startswith (fst (get_solution (script [Timeout] (Ok (reply ''SOLUTION: Reboot''))))) ''Error''"
  using get_solution_single_attempt [of "script [Timeout] (Ok (reply ''SOLUTION: Reboot''))"]
  by (simp add: script_def)

text \<open>
  The claim as stated does not hold: it has \<open>get_solution\<close> retry up to three times. With
  a backend that times out once and would then answer, the specified policy makes
  a second attempt after a pause of 1, while \<open>get_solution\<close> stops after the first
  request and returns the timeout message.
\<close>

theorem get_solution_no_retry_counterexample:
  "get_solution (script [Timeout] (Ok (reply ''SOLUTION: Reboot'')))
     = (''Error: Request timed out. Please check if Ollama server is running.'', [Post 60])
   \<and> spec_retry_trace (script [Timeout] (Ok (reply ''SOLUTION: Reboot'')))
     = [Post 60, Sleep 1, Post 60]"
  by (simp add: get_solution_def spec_retry_trace_def script_def)

subsection \<open>The category path: retries of \<open>get_category\<close>\<close>

lemma category_attempts_timeout:
  "backend a = Timeout \<Longrightarrow>
   category_attempts backend (a # rest) =
     (if a < 2
      then (case category_attempts backend rest of (r, tr) \<Rightarrow> (r, Post 60 # Sleep 5 # tr))
      else (Some ''Uncategorized'', [Post 60]))"
  by (simp add: timeout_def max_retries_def)

lemma category_attempts_settled:
  "backend a \<noteq> Timeout \<Longrightarrow>
   category_attempts backend (a # rest) = (Some (category_of_outcome (backend a)), [Post 60])"
  by (cases "backend a") (simp_all add: timeout_def category_of_outcome_def split: sum.splits)

lemma category_of_outcome_Timeout: "category_of_outcome Timeout = ''Uncategorized''"
  by (simp add: category_of_outcome_def)

lemma get_category_first:
  "backend 0 \<noteq> Timeout \<Longrightarrow>
   get_category backend = (Some (category_of_outcome (backend 0)), retry_trace 60 5 1)"
  by (simp add: get_category_def upt_max_retries category_attempts_settled retry_trace_def
        del: category_attempts.simps)

lemma get_category_second:
  "backend 0 = Timeout \<Longrightarrow> backend 1 \<noteq> Timeout \<Longrightarrow>
   get_category backend = (Some (category_of_outcome (backend 1)), retry_trace 60 5 2)"
  by (simp add: get_category_def upt_max_retries category_attempts_settled
        category_attempts_timeout retry_trace_2 del: category_attempts.simps)

lemma get_category_third:
  "backend 0 = Timeout \<Longrightarrow> backend 1 = Timeout \<Longrightarrow>
   get_category backend = (Some (category_of_outcome (backend 2)), retry_trace 60 5 3)"
  by (cases "backend 2 = Timeout")
    (simp_all add: get_category_def upt_max_retries category_attempts_settled
        category_attempts_timeout retry_trace_3 category_of_outcome_Timeout
        del: category_attempts.simps)

text \<open>
  Claim C6, as amended. The category lookup makes between one and three attempts, each
  a request under a timeout of 60. Only a timeout is followed by another attempt, after
  a pause of 5; a connection error and a backend error both end the lookup at once.
  So every attempt before the last one timed out, and a lookup of fewer than three
  attempts ended on an outcome that is not a timeout.
\<close>

theorem get_category_retry:
  "\<exists>n. 1 \<le> n \<and> n \<le> 3
     \<and> snd (get_category backend) = retry_trace 60 5 n
     \<and> (\<forall>a<n - 1. backend a = Timeout)
     \<and> (n < 3 \<longrightarrow> backend (n - 1) \<noteq> Timeout)"
proof (cases "backend 0 = Timeout")
  case False
  have "1 \<le> (1::nat) \<and> (1::nat) \<le> 3
     \<and> snd (get_category backend) = retry_trace 60 5 1
     \<and> (\<forall>a<(1::nat) - 1. backend a = Timeout)
     \<and> ((1::nat) < 3 \<longrightarrow> backend ((1::nat) - 1) \<noteq> Timeout)"
    using False by (simp add: get_category_first)
  then show ?thesis
    by (rule_tac x = 1 in exI)
next
  case t0: True
  show ?thesis
  proof (cases "backend 1 = Timeout")
    case False
    have "1 \<le> (2::nat) \<and> (2::nat) \<le> 3
       \<and> snd (get_category backend) = retry_trace 60 5 2
       \<and> (\<forall>a<(2::nat) - 1. backend a = Timeout)
       \<and> ((2::nat) < 3 \<longrightarrow> backend ((2::nat) - 1) \<noteq> Timeout)"
      using t0 False by (simp add: get_category_second)
    then show ?thesis
      by (rule_tac x = 2 in exI)
  next
    case True
    have early: "\<forall>a<(3::nat) - 1. backend a = Timeout"
      using t0 True below_two by blast
    have "1 \<le> (3::nat) \<and> (3::nat) \<le> 3
       \<and> snd (get_category backend) = retry_trace 60 5 3
       \<and> (\<forall>a<(3::nat) - 1. backend a = Timeout)
       \<and> ((3::nat) < 3 \<longrightarrow> backend ((3::nat) - 1) \<noteq> Timeout)"
      using t0 True early by (simp add: get_category_third)
    then show ?thesis
      by (rule_tac x = 3 in exI)
  qed
qed

theorem get_category_retry_witness:
  "snd (get_category (script [Timeout] (Ok (reply ''CATEGORY: VPN''))))
     = [Post 60, Sleep 5, Post 60]"
proof -
  obtain n where n: "1 \<le> n" "n \<le> 3"
    and tr: "snd (get_category (script [Timeout] (Ok (reply ''CATEGORY: VPN''))))
               = retry_trace 60 5 n"
    and early: "\<forall>a<n - 1. script [Timeout] (Ok (reply ''CATEGORY: VPN'')) a = Timeout"
    and last: "n < 3 \<longrightarrow> script [Timeout] (Ok (reply ''CATEGORY: VPN'')) (n - 1) \<noteq> Timeout"
    using get_category_retry [of "script [Timeout] (Ok (reply ''CATEGORY: VPN''))"]
    by (elim exE conjE)
  from n have "n = 1 \<or> n = 2 \<or> n = 3" by arith
  moreover have "n \<noteq> 1" using last by (auto simp: script_def)
  moreover have "n \<noteq> 3"
  proof
    assume "n = 3"
    with early have "script [Timeout] (Ok (reply ''CATEGORY: VPN'')) 1 = Timeout" by simp
    then show False by (simp add: script_def)
  qed
  ultimately have "n = 2" by blast
  with tr show ?thesis by (simp add: retry_trace_2)
qed

text \<open>
  The claim as stated does not hold. After a timeout the pause is 5, not 1; and after
  a backend error there is no second attempt, where the stated policy pauses for 1 and
  tries again.
\<close>

theorem get_category_retry_counterexample:
  "snd (get_category (script [Timeout] (Ok (reply ''CATEGORY: VPN''))))
     = [Post 60, Sleep 5, Post 60]
   \<and> spec_retry_trace (script [Timeout] (Ok (reply ''CATEGORY: VPN'')))
     = [Post 60, Sleep 1, Post 60]
   \<and> snd (get_category (script [BackendError ''500''] (Ok (reply ''CATEGORY: VPN''))))
     = [Post 60]
   \<and> spec_retry_trace (script [BackendError ''500''] (Ok (reply ''CATEGORY: VPN'')))
     = [Post 60, Sleep 1, Post 60]"
proof -
  have a: "snd (get_category (script [Timeout] (Ok (reply ''CATEGORY: VPN''))))
             = [Post 60, Sleep 5, Post 60]"
    by (simp add: get_category_second script_def retry_trace_2)
  have b: "spec_retry_trace (script [Timeout] (Ok (reply ''CATEGORY: VPN'')))
             = [Post 60, Sleep 1, Post 60]"
    by (simp add: spec_retry_trace_def script_def)
  have c: "snd (get_category (script [BackendError ''500''] (Ok (reply ''CATEGORY: VPN''))))
             = [Post 60]"
    by (simp add: get_category_first script_def retry_trace_def)
  have d: "spec_retry_trace (script [BackendError ''500''] (Ok (reply ''CATEGORY: VPN'')))
             = [Post 60, Sleep 1, Post 60]"
    by (simp add: spec_retry_trace_def script_def)
  from a b c d show ?thesis by (intro conjI)
qed

subsection \<open>The category path: what \<open>get_category\<close> returns\<close>

lemma match_valid_find:
  "match_valid cand vs =
     (case find (\<lambda>v. lower cand = lower v) vs of Some v \<Rightarrow> v | None \<Rightarrow> ''Uncategorized'')"
  by (induction vs) simp_all

lemma match_valid_range: "match_valid cand vs \<in> set vs \<or> match_valid cand vs = ''Uncategorized''"
  by (induction vs) auto

lemma category_of_lines_skip:
  "\<forall>p\<in>set pre. \<not> is_category_line p \<Longrightarrow> category_of_lines (pre @ rest) = category_of_lines rest"
  by (induction pre) simp_all

lemma category_of_lines_none:
  "\<forall>l\<in>set ls. \<not> is_category_line l \<Longrightarrow> category_of_lines ls = Inr ''Uncategorized''"
  by (induction ls) simp_all

lemma category_of_lines_range:
  "category_of_lines ls = Inr c \<Longrightarrow> c \<in> set categories \<or> c = ''Uncategorized''"
proof (induction ls)
  case Nil
  then show ?case by simp
next
  case (Cons line rest)
  then show ?case
    using match_valid_range [of _ categories]
    by (auto split: if_splits sum.splits)
qed

lemma lower_char_colon:
  assumes "lower_char c = CHR '':''"
  shows "c = CHR '':''"
proof (rule ccontr)
  assume neq: "c \<noteq> CHR '':''"
  define n where "n = (of_char c :: nat)"
  from assms neq have cap: "(65 \<le> n \<and> n \<le> 90) \<or> (192 \<le> n \<and> n \<le> 214) \<or> (216 \<le> n \<and> n \<le> 222)"
    and eq: "char_of (n + 32) = CHR '':''"
    by (auto simp: lower_char_def Let_def n_def split: if_splits)
  from eq have "(of_char (char_of (n + 32) :: char) :: nat) = of_char (CHR '':'')"
    by simp
  then have m: "(n + 32) mod 256 = (58::nat)"
    by simp
  from cap have "n + 32 < 256"
    by arith
  then have "(n + 32) mod 256 = n + 32"
    by simp
  with m have "n = 26"
    by arith
  with cap show False
    by arith
qed

lemma set_strip: "set (strip s) \<subseteq> set s"
proof
  fix x
  assume "x \<in> set (strip s)"
  then have "x \<in> set (rev (dropWhile isspace (rev s)))"
    unfolding strip_def by (rule set_dropWhileD)
  then have "x \<in> set (dropWhile isspace (rev s))"
    by simp
  then have "x \<in> set (rev s)"
    by (rule set_dropWhileD)
  then show "x \<in> set s"
    by simp
qed

lemma is_category_line_colon:
  assumes "is_category_line line"
  shows "CHR '':'' \<in> set line"
proof -
  from assms obtain zs where "lower (strip line) = ''category:'' @ zs"
    unfolding is_category_line_def startswith_def by (auto elim: prefixE)
  then have "CHR '':'' \<in> set (lower (strip line))"
    by simp
  then obtain c where "c \<in> set (strip line)" and "lower_char c = CHR '':''"
    unfolding lower_def by auto
  then have "CHR '':'' \<in> set (strip line)"
    using lower_char_colon by blast
  then show ?thesis
    using set_strip by blast
qed

lemma category_candidate_colon:
  assumes "CHR '':'' \<in> set line"
  shows "category_candidate line = Inr (strip (tl (dropWhile (\<lambda>c. c \<noteq> CHR '':'') line)))"
proof -
  from assms have "dropWhile (\<lambda>c. c \<noteq> CHR '':'') line \<noteq> []"
    by (auto simp: dropWhile_eq_Nil_conv)
  then obtain x rest where "dropWhile (\<lambda>c. c \<noteq> CHR '':'') line = x # rest"
    by (cases "dropWhile (\<lambda>c. c \<noteq> CHR '':'') line") auto
  then show ?thesis
    by (simp add: category_candidate_def split_once_def)
qed

lemma category_of_lines_first:
  assumes "\<forall>p\<in>set pre. \<not> is_category_line p" and "is_category_line line"
  shows "category_of_lines (pre @ line # post) =
           Inr (match_valid (strip (tl (dropWhile (\<lambda>c. c \<noteq> CHR '':'') line))) categories)"
  using assms
  by (simp add: category_of_lines_skip category_candidate_colon is_category_line_colon)

lemma splitlines_Nil: "splitlines [] = []"
  by (simp add: splitlines_def)

lemma category_of_reply_text:
  "map_of kvs ''response'' = Some (JStr text) \<Longrightarrow>
   category_of_reply (JObj kvs) = category_of_lines (splitlines text)"
  by (cases "text = []") (simp_all add: category_of_reply_def splitlines_Nil)

lemma category_of_reply_range:
  "category_of_reply d = Inr c \<Longrightarrow> c \<in> set categories \<or> c = ''Uncategorized''"
  by (auto simp: category_of_reply_def split: json.splits option.splits if_splits
        dest: category_of_lines_range)

lemma category_of_outcome_range:
  "category_of_outcome out \<in> set categories \<or> category_of_outcome out = ''Uncategorized''"
  by (auto simp: category_of_outcome_def split: outcome.splits sum.splits
        dest: category_of_reply_range)

lemma get_category_total:
  "\<exists>k<3. fst (get_category backend) = Some (category_of_outcome (backend k))"
proof (cases "backend 0 = Timeout")
  case False
  then have "fst (get_category backend) = Some (category_of_outcome (backend 0))"
    by (simp add: get_category_first)
  then show ?thesis
    by (intro exI [of _ 0]) simp
next
  case t0: True
  show ?thesis
  proof (cases "backend 1 = Timeout")
    case False
    with t0 have "fst (get_category backend) = Some (category_of_outcome (backend 1))"
      by (simp add: get_category_second)
    then show ?thesis
      by (intro exI [of _ 1]) simp
  next
    case True
    with t0 have "fst (get_category backend) = Some (category_of_outcome (backend 2))"
      by (simp add: get_category_third)
    then show ?thesis
      by (intro exI [of _ 2]) simp
  qed
qed

lemma get_category_at:
  assumes "k < 3" and "\<forall>a<k. backend a = Timeout" and "backend k \<noteq> Timeout \<or> k = 2"
  shows "fst (get_category backend) = Some (category_of_outcome (backend k))"
proof -
  from assms(1) have "k = 0 \<or> k = 1 \<or> k = 2" by arith
  then show ?thesis
  proof (elim disjE)
    assume "k = 0"
    with assms show ?thesis by (simp add: get_category_first)
  next
    assume "k = 1"
    with assms show ?thesis by (simp add: get_category_second)
  next
    assume k: "k = 2"
    with assms(2) have "backend 0 = Timeout" "backend 1 = Timeout" by simp_all
    with k show ?thesis by (simp add: get_category_third)
  qed
qed

text \<open>
  Claim C5, as amended. \<open>get_category\<close> always returns a string, which is a member of the
  vocabulary or the sentinel \<open>Uncategorized\<close>; it never returns \<open>None\<close> and raises nothing.
  Let the attempt that is not followed by another one be attempt \<open>k\<close> (all attempts before
  it timed out). When it brings a reply text, the category line is the first line whose
  stripped, lower-cased form starts with \<open>category:\<close>; its value is what follows the
  first colon, stripped, and the result is the first vocabulary member equal to that
  value up to case, or the sentinel when there is none. A text without a category line
  gives the sentinel, and so does every kind of failure: a connection error, a backend
  error, or a timeout of the third attempt.
\<close>

theorem get_category_resolves:
  assumes "k < 3" and "\<forall>a<k. backend a = Timeout"
  shows
   "(\<exists>c. fst (get_category backend) = Some c \<and> (c \<in> set categories \<or> c = ''Uncategorized''))
    \<and> (\<forall>kvs text pre line post.
          backend k = Ok (JObj kvs) \<and> map_of kvs ''response'' = Some (JStr text)
          \<and> splitlines text = pre @ line # post
          \<and> (\<forall>p\<in>set pre. \<not> is_category_line p) \<and> is_category_line line
          \<longrightarrow> fst (get_category backend) =
                Some (case find (\<lambda>v. lower (strip (tl (dropWhile (\<lambda>c. c \<noteq> CHR '':'') line)))
                                        = lower v) categories of
                        Some v \<Rightarrow> v
                      | None \<Rightarrow> ''Uncategorized''))
    \<and> (\<forall>kvs text.
          backend k = Ok (JObj kvs) \<and> map_of kvs ''response'' = Some (JStr text)
          \<and> (\<forall>l\<in>set (splitlines text). \<not> is_category_line l)
          \<longrightarrow> fst (get_category backend) = Some ''Uncategorized'')
    \<and> (backend k = Unreachable \<or> (\<exists>msg. backend k = BackendError msg)
          \<or> (backend k = Timeout \<and> k = 2)
          \<longrightarrow> fst (get_category backend) = Some ''Uncategorized'')"
proof (intro conjI allI impI)
  from get_category_total [of backend] obtain j
    where "fst (get_category backend) = Some (category_of_outcome (backend j))"
    by (elim exE conjE)
  with category_of_outcome_range [of "backend j"]
  show "\<exists>c. fst (get_category backend) = Some c \<and> (c \<in> set categories \<or> c = ''Uncategorized'')"
    by simp
next
  fix kvs body pre line post
  assume h: "backend k = Ok (JObj kvs) \<and> map_of kvs ''response'' = Some (JStr body)
          \<and> splitlines body = pre @ line # post
          \<and> (\<forall>p\<in>set pre. \<not> is_category_line p) \<and> is_category_line line"
  then have "fst (get_category backend) = Some (category_of_outcome (backend k))"
    using assms by (intro get_category_at) simp_all
  moreover from h have "category_of_outcome (backend k) =
      match_valid (strip (tl (dropWhile (\<lambda>c. c \<noteq> CHR '':'') line))) categories"
    by (simp add: category_of_outcome_def category_of_reply_text category_of_lines_first)
  ultimately show "fst (get_category backend) =
      Some (case find (\<lambda>v. lower (strip (tl (dropWhile (\<lambda>c. c \<noteq> CHR '':'') line))) = lower v)
                  categories of
              Some v \<Rightarrow> v
            | None \<Rightarrow> ''Uncategorized'')"
    by (simp add: match_valid_find)
next
  fix kvs body
  assume h: "backend k = Ok (JObj kvs) \<and> map_of kvs ''response'' = Some (JStr body)
          \<and> (\<forall>l\<in>set (splitlines body). \<not> is_category_line l)"
  then have "fst (get_category backend) = Some (category_of_outcome (backend k))"
    using assms by (intro get_category_at) simp_all
  moreover from h have "category_of_outcome (backend k) = ''Uncategorized''"
    by (simp add: category_of_outcome_def category_of_reply_text category_of_lines_none)
  ultimately show "fst (get_category backend) = Some ''Uncategorized''"
    by simp
next
  assume h: "backend k = Unreachable \<or> (\<exists>msg. backend k = BackendError msg)
          \<or> (backend k = Timeout \<and> k = 2)"
  then have "fst (get_category backend) = Some (category_of_outcome (backend k))"
    using assms by (intro get_category_at) auto
  moreover from h have "category_of_outcome (backend k) = ''Uncategorized''"
    by (auto simp: category_of_outcome_def)
  ultimately show "fst (get_category backend) = Some ''Uncategorized''"
    by simp
qed

theorem get_category_resolves_witness:
  "fst (get_category (script [] (Ok (reply ''Category: vpn'')))) = Some ''VPN''"
proof -
  have lines: "splitlines ''Category: vpn'' = [] @ ''Category: vpn'' # []"
    by code_simp
  have labelled: "is_category_line ''Category: vpn''"
    by code_simp
  have found:
    "(case find (\<lambda>v. lower (strip (tl (dropWhile (\<lambda>c. c \<noteq> CHR '':'') ''Category: vpn'')))
                        = lower v) categories of
        Some v \<Rightarrow> v
      | None \<Rightarrow> ''Uncategorized'') = ''VPN''"
    by code_simp
  have "fst (get_category (script [] (Ok (reply ''Category: vpn'')))) =
          Some (case find (\<lambda>v. lower (strip (tl (dropWhile (\<lambda>c. c \<noteq> CHR '':'')
                                    ''Category: vpn''))) = lower v) categories of
                  Some v \<Rightarrow> v
                | None \<Rightarrow> ''Uncategorized'')"
    using get_category_resolves [of 0 "script [] (Ok (reply ''Category: vpn''))",
        THEN conjunct2, THEN conjunct1, rule_format,
        of "[(''response'', JStr ''Category: vpn'')]" "''Category: vpn''" "[]"
           "''Category: vpn''" "[]"]
      lines labelled
    by (simp add: script_def reply_def)
  with found show ?thesis
    by simp
qed

text \<open>
  The claim as stated does not hold for the label: the line need not begin with
  \<open>CATEGORY:\<close>. The reply \<open>category: network\<close> has no line beginning with \<open>CATEGORY:\<close>, and
  the result is the vocabulary member \<open>Network\<close>, not the sentinel.
\<close>

theorem get_category_label_counterexample:
  "list_all (\<lambda>line. \<not> startswith line ''CATEGORY:'') (splitlines ''category: network'')
   \<and> fst (get_category (script [] (Ok (reply ''category: network'')))) = Some ''Network''"
proof -
  have a: "list_all (\<lambda>line. \<not> startswith line ''CATEGORY:'') (splitlines ''category: network'')"
    by code_simp
  have b: "category_of_outcome (Ok (reply ''category: network'')) = ''Network''"
    by code_simp
  have c: "fst (get_category (script [] (Ok (reply ''category: network''))))
             = Some (category_of_outcome (Ok (reply ''category: network'')))"
    by (simp add: get_category_first script_def)
  from a b c show ?thesis
    by simp
qed

subsection \<open>The parser of a comparison reply\<close>

lemma parse_lines_last:
  "parse_lines float ls sc so =
     (if filter (\<lambda>line. startswith line ''SIMILARITY:'') ls = [] then sc
      else (case float (strip (replace ''SIMILARITY:'' []
                  (last (filter (\<lambda>line. startswith line ''SIMILARITY:'') ls)))) of
              Inr x \<Rightarrow> Some x
            | Inl e \<Rightarrow> None),
      if filter (\<lambda>line. startswith line ''SOLUTION:'') ls = [] then so
      else Some (strip (replace ''SOLUTION:'' []
                  (last (filter (\<lambda>line. startswith line ''SOLUTION:'') ls)))))"
proof (induction ls arbitrary: sc so)
  case Nil
  show ?case by simp
next
  case (Cons l ls)
  show ?case
    by (simp only: parse_lines.simps Cons.IH) (simp split: sum.splits)
qed

text \<open>
  Claim C2, as amended. For every reply text and whatever the builtin \<open>float\<close> does,
  the parser returns a pair and raises nothing. The score is read from the last line
  that starts with \<open>SIMILARITY:\<close>: it is the float of that line without the label,
  stripped, and it is absent when that conversion raises or when no line starts with
  \<open>SIMILARITY:\<close>. The solution is read from the last line that starts with \<open>SOLUTION:\<close> and
  is absent when there is no such line.
\<close>

theorem parse_response_last_line:
  "parse_response float text =
     (if filter (\<lambda>line. startswith line ''SIMILARITY:'') (splitlines text) = [] then None
      else (case float (strip (replace ''SIMILARITY:'' []
                  (last (filter (\<lambda>line. startswith line ''SIMILARITY:'') (splitlines text))))) of
              Inr x \<Rightarrow> Some x
            | Inl e \<Rightarrow> None),
      if filter (\<lambda>line. startswith line ''SOLUTION:'') (splitlines text) = [] then None
      else Some (strip (replace ''SOLUTION:'' []
                  (last (filter (\<lambda>line. startswith line ''SOLUTION:'') (splitlines text))))))"
  by (simp only: parse_response_def parse_lines_last)

theorem parse_response_last_line_witness:
  "parse_response decimal_float ''SIMILARITY: 0.85\<newline>SOLUTION: Restart router''
     = (Some (Finite (17 / 20)), Some ''Restart router'')
   \<and> parse_response decimal_float ''SIMILARITY: notanumber'' = (None, None)
   \<and> parse_response decimal_float ''no labels here'' = (None, None)"
proof -
  have a: "(if filter (\<lambda>line. startswith line ''SIMILARITY:'')
                 (splitlines ''SIMILARITY: 0.85\<newline>SOLUTION: Restart router'') = [] then None
      else (case decimal_float (strip (replace ''SIMILARITY:'' []
                  (last (filter (\<lambda>line. startswith line ''SIMILARITY:'')
                     (splitlines ''SIMILARITY: 0.85\<newline>SOLUTION: Restart router''))))) of
              Inr x \<Rightarrow> Some x
            | Inl e \<Rightarrow> None),
      if filter (\<lambda>line. startswith line ''SOLUTION:'')
            (splitlines ''SIMILARITY: 0.85\<newline>SOLUTION: Restart router'') = [] then None
      else Some (strip (replace ''SOLUTION:'' []
                  (last (filter (\<lambda>line. startswith line ''SOLUTION:'')
                     (splitlines ''SIMILARITY: 0.85\<newline>SOLUTION: Restart router''))))))
     = (Some (Finite (17 / 20)), Some ''Restart router'')"
    by code_simp
  have b: "parse_response decimal_float ''SIMILARITY: notanumber'' = (None, None)"
    by code_simp
  have c: "parse_response decimal_float ''no labels here'' = (None, None)"
    by code_simp
  from a b c show ?thesis
    using parse_response_last_line
      [of decimal_float "''SIMILARITY: 0.85\<newline>SOLUTION: Restart router''"]
    by simp
qed

text \<open>
  The claim as stated does not hold: it takes the first labelled line. With two lines
  of the same label the loop, which has no \<open>break\<close>, keeps what the later line gives.
\<close>

theorem parse_response_first_line_counterexample:
  "parse_response decimal_float ''SIMILARITY: 0.1\<newline>SIMILARITY: 0.9''
     = (Some (Finite (9 / 10)), None)
   \<and> spec_parse decimal_float ''SIMILARITY: 0.1\<newline>SIMILARITY: 0.9''
     = (Some (Finite (1 / 10)), None)
   \<and> parse_response decimal_float ''SOLUTION: Reboot\<newline>SOLUTION: Reinstall''
     = (None, Some ''Reinstall'')
   \<and> spec_parse decimal_float ''SOLUTION: Reboot\<newline>SOLUTION: Reinstall''
     = (None, Some ''Reboot'')"
  by code_simp

end
